theory Spec2Isabelle
  imports Complex_Main "HOL-Library.Product_Lexorder" "HOL-Library.Multiset"
begin

section \<open>Data model of \<^verbatim>\<open>square_skill_api/models/prediction.py\<close>\<close>

text \<open>
  The module defines four pydantic models and, on \<^verbatim>\<open>QueryOutput\<close>, a ranking key, a
  sorting validator, a helper that fans a context out into document lists, and two
  adapter constructors. The code runs on the Python interpreter and on the pydantic
  validation library; what the model takes from them is said where it is used.
\<close>

subsection \<open>Errors and plain Python values\<close>

datatype error =
    TypeError
  | KeyError
  | IndexError
  | ValueError
  | AssertionError
  | AttributeError
  | OverflowError
  | ValidationError

text \<open>
  A Python float is a finite number, one of the two infinities, or NaN. A finite float is
  modelled by the real number it denotes (so the zero of either sign is \<open>Fin 0\<close>); the
  code does no arithmetic on floats, it only stores and compares them.
\<close>

datatype pyfloat = Fin real | PInf | NInf | NaN

text \<open>The place of a float in the order of the floats that are not NaN.\<close>

fun float_ord :: "pyfloat \<Rightarrow> int \<times> real" where
  "float_ord NInf = (- 1, 0)"
| "float_ord (Fin r) = (0, r)"
| "float_ord PInf = (1, 0)"
| "float_ord NaN = (2, 0)"

text \<open>
  Python's \<^verbatim>\<open><\<close>, \<^verbatim>\<open><=\<close> and \<^verbatim>\<open>==\<close> on numbers: every comparison with NaN is false.
  (\<^verbatim>\<open>==\<close> is meant for two distinct objects; where Python first tests whether the two
  operands are one and the same object, the model says so.)
\<close>

definition float_lt :: "pyfloat \<Rightarrow> pyfloat \<Rightarrow> bool" where
  "float_lt a b \<longleftrightarrow> a \<noteq> NaN \<and> b \<noteq> NaN \<and> float_ord a < float_ord b"

definition float_le :: "pyfloat \<Rightarrow> pyfloat \<Rightarrow> bool" where
  "float_le a b \<longleftrightarrow> a \<noteq> NaN \<and> b \<noteq> NaN \<and> float_ord a \<le> float_ord b"

definition float_eq :: "pyfloat \<Rightarrow> pyfloat \<Rightarrow> bool" where
  "float_eq a b \<longleftrightarrow> a \<noteq> NaN \<and> a = b"

text \<open>
  The payloads handed to the adapters are plain data: \<^verbatim>\<open>None\<close>, numbers, text, lists and
  dictionaries with text keys. A dictionary is an association list read with
  \<^const>\<open>map_of\<close>.
\<close>

datatype pyval =
    PyNone
  | PyInt int
  | PyFloat pyfloat
  | PyStr string
  | PyList "pyval list"
  | PyDict "(string \<times> pyval) list"

fun bindE :: "error + 'a \<Rightarrow> ('a \<Rightarrow> error + 'b) \<Rightarrow> error + 'b" where
  "bindE (Inl e) f = Inl e"
| "bindE (Inr x) f = f x"

text \<open>A comprehension or loop body run over a list; the first error aborts the rest.\<close>

fun mapE :: "('a \<Rightarrow> error + 'b) \<Rightarrow> 'a list \<Rightarrow> error + 'b list" where
  "mapE f [] = Inr []"
| "mapE f (x # xs) = bindE (f x) (\<lambda>y. bindE (mapE f xs) (\<lambda>ys. Inr (y # ys)))"

text \<open>Truth value of a value in a condition (\<^verbatim>\<open>if v:\<close>, \<^verbatim>\<open>not v\<close>).\<close>

fun py_truthy :: "pyval \<Rightarrow> bool" where
  "py_truthy PyNone = False"
| "py_truthy (PyInt i) = (i \<noteq> 0)"
| "py_truthy (PyFloat r) = (r \<noteq> Fin 0)"
| "py_truthy (PyStr s) = (s \<noteq> [])"
| "py_truthy (PyList xs) = (xs \<noteq> [])"
| "py_truthy (PyDict d) = (d \<noteq> [])"

text \<open>\<^verbatim>\<open>v[k]\<close> with a text key \<^verbatim>\<open>k\<close>.\<close>

fun py_getitem :: "pyval \<Rightarrow> string \<Rightarrow> error + pyval" where
  "py_getitem (PyDict d) k = (case map_of d k of None \<Rightarrow> Inl KeyError | Some v \<Rightarrow> Inr v)"
| "py_getitem _ k = Inl TypeError"

text \<open>\<^verbatim>\<open>v[i]\<close> with a non-negative integer \<^verbatim>\<open>i\<close> (the literal 0, or a counter of \<^verbatim>\<open>enumerate\<close>).\<close>

fun py_index :: "pyval \<Rightarrow> nat \<Rightarrow> error + pyval" where
  "py_index (PyList xs) i = (if i < length xs then Inr (xs ! i) else Inl IndexError)"
| "py_index (PyStr s) i = (if i < length s then Inr (PyStr [s ! i]) else Inl IndexError)"
| "py_index (PyDict d) i = Inl KeyError"
| "py_index _ i = Inl TypeError"

text \<open>\<^verbatim>\<open>v.get(k, default)\<close>: only a dictionary has the method.\<close>

fun py_get :: "pyval \<Rightarrow> string \<Rightarrow> pyval \<Rightarrow> error + pyval" where
  "py_get (PyDict d) k dflt = Inr (case map_of d k of None \<Rightarrow> dflt | Some v \<Rightarrow> v)"
| "py_get _ k dflt = Inl AttributeError"

text \<open>
  The elements a \<^verbatim>\<open>for\<close> loop, \<^verbatim>\<open>zip\<close> or \<^verbatim>\<open>enumerate\<close> draws from a value: the elements
  of a list, the characters of a text, the keys of a dictionary in order of first
  occurrence.
\<close>

fun py_iter :: "pyval \<Rightarrow> error + pyval list" where
  "py_iter (PyList xs) = Inr xs"
| "py_iter (PyStr s) = Inr (map (\<lambda>c. PyStr [c]) s)"
| "py_iter (PyDict d) = Inr (map PyStr (rev (remdups (rev (map fst d)))))"
| "py_iter _ = Inl TypeError"

fun is_list :: "pyval \<Rightarrow> bool" where
  "is_list (PyList xs) = True"
| "is_list _ = False"

subsection \<open>Field validation\<close>

text \<open>
  Validation of one field by its declared type, as the validation library does it. A
  value of the declared type is accepted as it is (a float field accepts NaN and the
  infinities), and \<^verbatim>\<open>None\<close>, a list or a dictionary is rejected with a validation error.
  A scalar of another type (a number for a text field; a text or an integer for a float
  field; a float or a text for an integer) is converted or refused by the library: an
  integer of absolute value at most \<open>2^53\<close> becomes the float of the same value, and
  for every other such value what happens (which result, or which error) depends on the
  value and on the library's version and is left open here. The three functions
  \<open>lax_str\<close>, \<open>lax_float\<close> and \<open>lax_int\<close> stand for it: fixed functions of which nothing
  is known, so nothing can be proved from them, and no evaluation below goes through
  them.
\<close>

definition lax_str :: "pyval \<Rightarrow> error + string" where
  "lax_str = (SOME f. True)"

definition lax_float :: "pyval \<Rightarrow> error + pyfloat" where
  "lax_float = (SOME f. True)"

definition lax_int :: "pyval \<Rightarrow> error + int" where
  "lax_int = (SOME f. True)"

fun str_validator :: "pyval \<Rightarrow> error + string" where
  "str_validator (PyStr s) = Inr s"
| "str_validator (PyInt i) = lax_str (PyInt i)"
| "str_validator (PyFloat r) = lax_str (PyFloat r)"
| "str_validator _ = Inl ValidationError"

fun float_validator :: "pyval \<Rightarrow> error + pyfloat" where
  "float_validator (PyFloat r) = Inr r"
| "float_validator (PyInt i) =
     (if \<bar>i\<bar> \<le> 2 ^ 53 then Inr (Fin (of_int i)) else lax_float (PyInt i))"
| "float_validator (PyStr s) = lax_float (PyStr s)"
| "float_validator _ = Inl ValidationError"

fun int_validator :: "pyval \<Rightarrow> error + int" where
  "int_validator (PyInt i) = Inr i"
| "int_validator (PyFloat r) = lax_int (PyFloat r)"
| "int_validator (PyStr s) = lax_int (PyStr s)"
| "int_validator _ = Inl ValidationError"

fun optional_int_list_validator :: "pyval \<Rightarrow> error + int list option" where
  "optional_int_list_validator PyNone = Inr None"
| "optional_int_list_validator (PyList xs) = bindE (mapE int_validator xs) (\<lambda>is. Inr (Some is))"
| "optional_int_list_validator _ = Inl ValidationError"

text \<open>
  One field of a model read from the keyword arguments of its constructor: the
  argument if it is given, else the default, else (a required field) a validation
  error.
\<close>

definition field :: "(string \<times> pyval) list \<Rightarrow> string \<Rightarrow> (pyval \<Rightarrow> error + 'a) \<Rightarrow> 'a option \<Rightarrow> error + 'a" where
  "field kwargs name validate dflt =
     (case map_of kwargs name of
        Some v \<Rightarrow> validate v
      | None \<Rightarrow> (case dflt of Some d \<Rightarrow> Inr d | None \<Rightarrow> Inl ValidationError))"

subsection \<open>The models\<close>

text \<open>The field \<^verbatim>\<open>output\<close> is named \<open>output_text\<close>: \<open>output\<close> is reserved in Isabelle.\<close>

record PredictionOutput =
  output_text :: string
  output_score :: pyfloat

record PredictionDocument =
  index :: string
  document_id :: string
  document :: string
  span :: "int list option"
  url :: string
  source :: string
  document_score :: pyfloat

record Prediction =
  prediction_score :: pyfloat
  prediction_output :: PredictionOutput
  prediction_documents :: "PredictionDocument list"

record QueryOutput =
  predictions :: "Prediction list"

text \<open>
  \<^verbatim>\<open>PredictionOutput(**kwargs)\<close>: both fields are required.
\<close>

definition PredictionOutput_init :: "(string \<times> pyval) list \<Rightarrow> error + PredictionOutput" where
  "PredictionOutput_init kwargs =
     bindE (field kwargs ''output'' str_validator None) (\<lambda>txt.
     bindE (field kwargs ''output_score'' float_validator None) (\<lambda>s.
     Inr \<lparr>output_text = txt, output_score = s\<rparr>))"

text \<open>
  \<^verbatim>\<open>PredictionDocument(**kwargs)\<close>: only \<^verbatim>\<open>document\<close> is required, \<^verbatim>\<open>span\<close> defaults to
  \<^verbatim>\<open>None\<close>, \<^verbatim>\<open>document_score\<close> to 0 and the other texts to the empty text. The class sets
  no configuration, so a keyword argument that names no field is ignored.
\<close>

definition PredictionDocument_init :: "(string \<times> pyval) list \<Rightarrow> error + PredictionDocument" where
  "PredictionDocument_init kwargs =
     bindE (field kwargs ''index'' str_validator (Some [])) (\<lambda>i.
     bindE (field kwargs ''document_id'' str_validator (Some [])) (\<lambda>di.
     bindE (field kwargs ''document'' str_validator None) (\<lambda>d.
     bindE (field kwargs ''span'' optional_int_list_validator (Some None)) (\<lambda>sp.
     bindE (field kwargs ''url'' str_validator (Some [])) (\<lambda>u.
     bindE (field kwargs ''source'' str_validator (Some [])) (\<lambda>so.
     bindE (field kwargs ''document_score'' float_validator (Some (Fin 0))) (\<lambda>ds.
     Inr \<lparr>index = i, document_id = di, document = d, span = sp, url = u, source = so,
          document_score = ds\<rparr>)))))))"

text \<open>
  \<^verbatim>\<open>Prediction(prediction_score=..., prediction_output=..., prediction_documents=...)\<close>
  as both adapters call it: the output and the documents are model instances already,
  the score is validated as a float.
\<close>

definition Prediction_init :: "pyval \<Rightarrow> PredictionOutput \<Rightarrow> PredictionDocument list \<Rightarrow> error + Prediction" where
  "Prediction_init score out docs =
     bindE (float_validator score) (\<lambda>s.
     Inr \<lparr>prediction_score = s, prediction_output = out, prediction_documents = docs\<rparr>)"

subsection \<open>Ranking key and sorting validator\<close>

text \<open>
  The argument of \<^verbatim>\<open>sort_predictions_key\<close>: a \<^verbatim>\<open>Prediction\<close> instance or a plain value.
\<close>

datatype keyarg = APrediction Prediction | AValue pyval

fun sort_predictions_key :: "keyarg \<Rightarrow> error + (pyval \<times> pyval)" where
  "sort_predictions_key (APrediction p) =
     Inr (case prediction_documents p of
            [] \<Rightarrow> PyInt 1
          | d # _ \<Rightarrow> PyFloat (document_score d),
          PyFloat (prediction_score p))"
| "sort_predictions_key (AValue (PyDict p)) =
     bindE (py_getitem (PyDict p) ''prediction_score'') (\<lambda>answer_score.
     bindE (py_getitem (PyDict p) ''prediction_documents'') (\<lambda>docs.
     bindE (if py_truthy docs
            then bindE (py_index docs 0) (\<lambda>d0. py_get d0 ''document_score'' (PyInt 1))
            else Inr (PyInt 1)) (\<lambda>document_score.
     Inr (document_score, answer_score))))"
| "sort_predictions_key (AValue _) = Inl TypeError"

text \<open>
  The number a numeric value stands for when Python compares it: an integer compares
  with a float by its exact value.
\<close>

fun py_number :: "pyval \<Rightarrow> pyfloat" where
  "py_number (PyInt i) = Fin (of_int i)"
| "py_number (PyFloat r) = r"
| "py_number _ = NaN"

text \<open>
  The key the validator sorts by. It receives validated \<^verbatim>\<open>Prediction\<close> instances, so
  the key function always takes its first branch and returns a pair of numbers (the
  other cases of \<open>rank\<close> and \<open>py_number\<close> are never reached).
\<close>

definition rank :: "Prediction \<Rightarrow> pyfloat \<times> pyfloat" where
  "rank p = (case sort_predictions_key (APrediction p) of
               Inr (a, b) \<Rightarrow> (py_number a, py_number b)
             | Inl _ \<Rightarrow> (NaN, NaN))"

text \<open>
  \<^verbatim>\<open>sorted(v, key=k, reverse=True)\<close> on keys that are pairs of numbers. The interpreter
  reverses the list, sorts it in ascending order with a stable sort that compares keys
  with \<^verbatim>\<open><\<close> only, and reverses the result.

  Python compares two pairs with \<^verbatim>\<open><\<close> by the first components if these differ, else
  by the second; two components count as not differing when they are equal or are one
  and the same object, so whether two NaN first components differ is not determined by
  their values. \<open>key_lt_possible x y\<close> is true when \<^verbatim>\<open>x < y\<close> holds or, in that one
  undetermined case, may hold; when it is false, \<^verbatim>\<open>x < y\<close> is false.
\<close>

definition key_lt_possible :: "pyfloat \<times> pyfloat \<Rightarrow> pyfloat \<times> pyfloat \<Rightarrow> bool" where
  "key_lt_possible x y =
     (if fst x = fst y then float_lt (snd x) (snd y) else float_lt (fst x) (fst y))"

definition no_nan :: "pyfloat \<times> pyfloat \<Rightarrow> bool" where
  "no_nan x \<longleftrightarrow> fst x \<noteq> NaN \<and> snd x \<noteq> NaN"

text \<open>Without NaN, \<^verbatim>\<open><\<close> on keys is the lexicographic order of this pair.\<close>

definition key_ord :: "pyfloat \<times> pyfloat \<Rightarrow> (int \<times> real) \<times> (int \<times> real)" where
  "key_ord x = (float_ord (fst x), float_ord (snd x))"

text \<open>No element of the list can compare less than the element before it.\<close>

fun ascending_run :: "(pyfloat \<times> pyfloat) list \<Rightarrow> bool" where
  "ascending_run (x # y # zs) = (\<not> key_lt_possible y x \<and> ascending_run (y # zs))"
| "ascending_run _ = True"

text \<open>
  A rearrangement of a list of which nothing else is known: a fixed function that
  returns, for every list, a list with the same elements.
\<close>

definition unspecified_order :: "'a list \<Rightarrow> 'a list" where
  "unspecified_order = (SOME f. \<forall>xs. mset (f xs) = mset xs)"

text \<open>
  Three cases. When no key holds a NaN the comparison is a total order and every stable
  sort gives the same list: the stable descending sort. Otherwise, when the reversed
  list has no element that can compare less than the one before it, the sort finds it to
  be one ascending run and leaves it as it is, so the result is the list as given.
  In the remaining case (a NaN among the keys and some element out of order) the result
  is a rearrangement of the list that depends on the steps of the interpreter's sorting
  routine; it is left open.
\<close>

definition sorted_reverse :: "('a \<Rightarrow> pyfloat \<times> pyfloat) \<Rightarrow> 'a list \<Rightarrow> 'a list" where
  "sorted_reverse k v =
     (if list_all (\<lambda>x. no_nan (k x)) v then rev (sort_key (\<lambda>x. key_ord (k x)) (rev v))
      else if ascending_run (map k (rev v)) then v
      else unspecified_order v)"

definition sort_predictions :: "Prediction list \<Rightarrow> Prediction list" where
  "sort_predictions v = sorted_reverse rank v"

text \<open>
  \<^verbatim>\<open>cls(predictions=predictions)\<close> on a list of \<^verbatim>\<open>Prediction\<close> instances: the field
  validates, then the validator \<^verbatim>\<open>sort_predictions\<close> replaces its value.
\<close>

definition QueryOutput_init :: "Prediction list \<Rightarrow> QueryOutput" where
  "QueryOutput_init ps = \<lparr>predictions = sort_predictions ps\<rparr>"

text \<open>
  \<^verbatim>\<open>QueryOutput.construct(predictions=predictions)\<close>, the constructor every model
  inherits from the library's base class: it sets the fields to the given values and
  runs no validation and no validator.
\<close>

definition QueryOutput_construct :: "Prediction list \<Rightarrow> QueryOutput" where
  "QueryOutput_construct ps = \<lparr>predictions = ps\<rparr>"

subsection \<open>A model instance as a mapping\<close>

text \<open>
  The mapping with the same field names and values as a model instance (what the
  instance's \<^verbatim>\<open>dict()\<close> gives).
\<close>

definition PredictionOutput_dict :: "PredictionOutput \<Rightarrow> pyval" where
  "PredictionOutput_dict x =
     PyDict [(''output'', PyStr (output_text x)), (''output_score'', PyFloat (output_score x))]"

definition PredictionDocument_dict :: "PredictionDocument \<Rightarrow> pyval" where
  "PredictionDocument_dict d =
     PyDict [(''index'', PyStr (index d)),
             (''document_id'', PyStr (document_id d)),
             (''document'', PyStr (document d)),
             (''span'', case span d of None \<Rightarrow> PyNone | Some xs \<Rightarrow> PyList (map PyInt xs)),
             (''url'', PyStr (url d)),
             (''source'', PyStr (source d)),
             (''document_score'', PyFloat (document_score d))]"

definition Prediction_dict :: "Prediction \<Rightarrow> pyval" where
  "Prediction_dict p =
     PyDict [(''prediction_score'', PyFloat (prediction_score p)),
             (''prediction_output'', PredictionOutput_dict (prediction_output p)),
             (''prediction_documents'',
                PyList (map PredictionDocument_dict (prediction_documents p)))]"

subsection \<open>Context fan-out helper\<close>

text \<open>
  \<^verbatim>\<open>_prediction_documents_iter_from_context(iter_len, context)\<close>, named here without
  its leading underscore. The two generator
  expressions cannot fail while they are consumed, so the helper is modelled by the
  list of document lists it yields; \<^verbatim>\<open>range(iter_len)\<close> is empty for a negative
  \<^verbatim>\<open>iter_len\<close>.
\<close>

definition prediction_documents_iter_from_context :: "int \<Rightarrow> pyval \<Rightarrow> error + PredictionDocument list list" where
  "prediction_documents_iter_from_context iter_len context =
     (case context of
        PyNone \<Rightarrow> Inr (replicate (nat iter_len) [])
      | PyStr s \<Rightarrow>
          mapE (\<lambda>_. bindE (PredictionDocument_init [(''document'', context)]) (\<lambda>d. Inr [d]))
            (replicate (nat iter_len) ())
      | PyList cs \<Rightarrow>
          if int (length cs) \<noteq> iter_len then Inl ValueError
          else mapE (\<lambda>c. bindE (PredictionDocument_init [(''document'', c)]) (\<lambda>d. Inr [d])) cs
      | _ \<Rightarrow> Inl TypeError)"

subsection \<open>Sequence-classification adapter\<close>

text \<open>The body of the loop of \<^verbatim>\<open>from_sequence_classification\<close>, for one zipped triple.\<close>

definition sequence_classification_prediction :: "pyval \<times> string \<times> PredictionDocument list \<Rightarrow> error + Prediction" where
  "sequence_classification_prediction t =
     (case t of (score, answer, documents) \<Rightarrow>
        bindE (PredictionOutput_init [(''output'', PyStr answer), (''output_score'', score)])
          (\<lambda>out.
        Prediction_init score out documents))"

text \<open>The expression \<^verbatim>\<open>model_api_output["model_outputs"]["logits"][0]\<close>.\<close>

definition logits_row :: "pyval \<Rightarrow> error + pyval" where
  "logits_row model_api_output =
     bindE (py_getitem model_api_output ''model_outputs'') (\<lambda>model_outputs.
     bindE (py_getitem model_outputs ''logits'') (\<lambda>logits.
     py_index logits 0))"

text \<open>
  \<^verbatim>\<open>from_sequence_classification(answers, model_api_output, context)\<close>; \<^verbatim>\<open>answers\<close> is a
  list of texts, as declared. The helper is called first, then the scores are looked up;
  \<^verbatim>\<open>zip\<close> stops at the shortest of its three arguments.
\<close>

definition from_sequence_classification :: "string list \<Rightarrow> pyval \<Rightarrow> pyval \<Rightarrow> error + QueryOutput" where
  "from_sequence_classification answers model_api_output context =
     bindE (prediction_documents_iter_from_context (int (length answers)) context)
       (\<lambda>documents_iter.
     bindE (logits_row model_api_output) (\<lambda>predictions_scores.
     bindE (py_iter predictions_scores) (\<lambda>scores.
     bindE (mapE sequence_classification_prediction
              (zip scores (zip answers documents_iter))) (\<lambda>ps.
     Inr (QueryOutput_init ps)))))"

subsection \<open>Question-answering adapter\<close>

text \<open>
  The context document and context score of passage \<open>i\<close> (the first statement of the
  outer loop of \<^verbatim>\<open>from_question_answering\<close>).
\<close>

definition resolve_context :: "pyval \<Rightarrow> pyval \<Rightarrow> nat \<Rightarrow> error + (pyval \<times> pyval)" where
  "resolve_context context context_score i =
     (if is_list context then
        if \<not> is_list context_score then Inl AssertionError
        else bindE (py_index context i) (\<lambda>context_doc_i.
             bindE (py_index context_score i) (\<lambda>context_score_i.
             Inr (context_doc_i, context_score_i)))
      else Inr (if context = PyNone then PyStr [] else context,
                if context = PyNone then PyInt 1 else context_score))"

text \<open>
  The body of the inner loop, for one answer record. The document is built with the
  keyword arguments \<^verbatim>\<open>document\<close>, \<^verbatim>\<open>span\<close> and \<^verbatim>\<open>score\<close>, as the source writes them.
\<close>

definition question_answering_prediction :: "pyval \<Rightarrow> pyval \<Rightarrow> pyval \<Rightarrow> error + Prediction" where
  "question_answering_prediction context_doc_i context_score_i answer =
     bindE (py_getitem answer ''answer'') (\<lambda>answer_str0.
     bindE (Inr (if \<not> py_truthy answer_str0 then PyStr ''No answer found.'' else answer_str0))
       (\<lambda>answer_str.
     bindE (py_getitem answer ''score'') (\<lambda>answer_score.
     bindE (PredictionOutput_init [(''output'', answer_str), (''output_score'', answer_score)])
       (\<lambda>out.
     bindE (if py_truthy context_doc_i
            then bindE (py_getitem answer ''start'') (\<lambda>span_start.
                 bindE (py_getitem answer ''end'') (\<lambda>span_end.
                 bindE (PredictionDocument_init
                          [(''document'', context_doc_i),
                           (''span'', PyList [span_start, span_end]),
                           (''score'', context_score_i)]) (\<lambda>d.
                 Inr [d])))
            else Inr []) (\<lambda>documents.
     Prediction_init answer_score out documents)))))"

text \<open>One round of the outer loop: the predictions of passage \<open>i\<close>.\<close>

definition question_answering_passage :: "pyval \<Rightarrow> pyval \<Rightarrow> nat \<times> pyval \<Rightarrow> error + Prediction list" where
  "question_answering_passage context context_score ia =
     (case ia of (i, answers) \<Rightarrow>
        bindE (resolve_context context context_score i) (\<lambda>(context_doc_i, context_score_i).
        bindE (py_iter answers) (\<lambda>answer_list.
        mapE (question_answering_prediction context_doc_i context_score_i) answer_list)))"

definition from_question_answering :: "pyval \<Rightarrow> pyval \<Rightarrow> pyval \<Rightarrow> error + QueryOutput" where
  "from_question_answering model_api_output context context_score =
     bindE (py_getitem model_api_output ''answers'') (\<lambda>answers.
     bindE (py_iter answers) (\<lambda>passages.
     bindE (mapE (question_answering_passage context context_score) (enumerate 0 passages))
       (\<lambda>per_passage.
     Inr (QueryOutput_init (concat per_passage)))))"

subsection \<open>Values the statements below refer to\<close>

text \<open>
  The document that wraps a text and leaves every other field at its default: no span,
  score 0.
\<close>

definition plain_document :: "string \<Rightarrow> PredictionDocument" where
  "plain_document s = \<lparr>index = [], document_id = [], document = s, span = None, url = [],
     source = [], document_score = Fin 0\<rparr>"

text \<open>
  The ranking key in the words of the specification: the score of the first document,
  or 1 when there is none, then the prediction's own score.
\<close>

definition ranking_key :: "Prediction \<Rightarrow> pyfloat \<times> pyfloat" where
  "ranking_key p =
     (if prediction_documents p = [] then Fin 1
      else document_score (hd (prediction_documents p)),
      prediction_score p)"

text \<open>
  \<open>rank_ge x y\<close>: key \<open>x\<close> is at least key \<open>y\<close>, first component first, with Python's
  comparisons of numbers.
\<close>

definition rank_ge :: "pyfloat \<times> pyfloat \<Rightarrow> pyfloat \<times> pyfloat \<Rightarrow> bool" where
  "rank_ge x y \<longleftrightarrow>
     float_lt (fst y) (fst x) \<or> (float_eq (fst x) (fst y) \<and> float_le (snd y) (snd x))"

text \<open>Neither component of a prediction's key is NaN.\<close>

definition nan_free :: "Prediction \<Rightarrow> bool" where
  "nan_free p \<longleftrightarrow> fst (ranking_key p) \<noteq> NaN \<and> snd (ranking_key p) \<noteq> NaN"

text \<open>A list of predictions in descending rank order.\<close>

definition descending :: "Prediction list \<Rightarrow> bool" where
  "descending ps = sorted_wrt (\<lambda>a b. rank_ge (ranking_key a) (ranking_key b)) ps"

text \<open>
  The prediction the sequence-classification adapter is to build from a score, an
  answer and a document list.
\<close>

definition scored_prediction :: "pyfloat \<times> string \<times> PredictionDocument list \<Rightarrow> Prediction" where
  "scored_prediction t =
     (case t of (score, answer, documents) \<Rightarrow>
        \<lparr>prediction_score = score,
         prediction_output = \<lparr>output_text = answer, output_score = score\<rparr>,
         prediction_documents = documents\<rparr>)"

section \<open>Properties\<close>

text \<open>The equations that evaluate the adapters on a concrete input.\<close>

lemmas adapter_defs =
  from_sequence_classification_def logits_row_def prediction_documents_iter_from_context_def
  sequence_classification_prediction_def from_question_answering_def
  question_answering_passage_def question_answering_prediction_def resolve_context_def
  PredictionOutput_init_def PredictionDocument_init_def Prediction_init_def field_def
  QueryOutput_init_def sort_predictions_def sorted_reverse_def rank_def enumerate_eq_zip
  no_nan_def key_ord_def key_lt_possible_def float_lt_def

subsection \<open>Error plumbing\<close>

lemma bindE_eq_Inr: "bindE m f = Inr y \<longleftrightarrow> (\<exists>x. m = Inr x \<and> f x = Inr y)"
  by (cases m) auto

lemma bindE_eq_Inl: "bindE m f = Inl e \<longleftrightarrow> (m = Inl e \<or> (\<exists>x. m = Inr x \<and> f x = Inl e))"
  by (cases m) auto

lemma mapE_length: "mapE f xs = Inr ys \<Longrightarrow> length ys = length xs"
  by (induction xs arbitrary: ys) (auto simp: bindE_eq_Inr)

lemma mapE_nth: "mapE f xs = Inr ys \<Longrightarrow> i < length xs \<Longrightarrow> f (xs ! i) = Inr (ys ! i)"
proof (induction xs arbitrary: ys i)
  case Nil
  then show ?case by simp
next
  case (Cons x xs)
  then show ?case by (cases i) (auto simp: bindE_eq_Inr)
qed

lemma mapE_replicate: "f u = Inr y \<Longrightarrow> mapE f (replicate n u) = Inr (replicate n y)"
  by (induction n) auto

lemma mapE_fails:
  assumes "i < length xs" "f (xs ! i) = Inl e"
  shows "\<exists>e'. mapE f xs = Inl e'"
proof (cases "mapE f xs")
  case (Inl e')
  then show ?thesis by blast
next
  case (Inr ys)
  from mapE_nth [OF Inr assms(1)] assms(2) show ?thesis by simp
qed

subsection \<open>Ranking key\<close>

text \<open>
  C2. For a \<open>Prediction\<close> the key is the pair of the first document's score (1 when
  there is no document) and the prediction's score; the mapping with the same field
  names and values gets the same key; an input that is neither a \<open>Prediction\<close> nor a
  mapping fails with \<open>TypeError\<close>.
\<close>

theorem sort_predictions_key_shapes:
  "sort_predictions_key (APrediction p) =
     Inr (if prediction_documents p = [] then PyInt 1
          else PyFloat (document_score (hd (prediction_documents p))),
          PyFloat (prediction_score p))
   \<and> sort_predictions_key (AValue (Prediction_dict p)) = sort_predictions_key (APrediction p)
   \<and> ((\<forall>d. v \<noteq> PyDict d) \<longrightarrow> sort_predictions_key (AValue v) = Inl TypeError)"
proof (intro conjI impI)
  show "sort_predictions_key (APrediction p) =
     Inr (if prediction_documents p = [] then PyInt 1
          else PyFloat (document_score (hd (prediction_documents p))),
          PyFloat (prediction_score p))"
    by (simp split: list.splits)
  show "sort_predictions_key (AValue (Prediction_dict p)) = sort_predictions_key (APrediction p)"
    by (cases "prediction_documents p")
      (simp_all add: Prediction_dict_def PredictionDocument_dict_def)
  show "sort_predictions_key (AValue v) = Inl TypeError" if "\<forall>d. v \<noteq> PyDict d"
    using that by (cases v) simp_all
qed

theorem sort_predictions_key_shapes_witness:
  "sort_predictions_key (APrediction
      \<lparr>prediction_score = Fin 0.9,
       prediction_output = \<lparr>output_text = ''yes'', output_score = Fin 0.9\<rparr>,
       prediction_documents = [plain_document ''doc'']\<rparr>) = Inr (PyFloat (Fin 0), PyFloat (Fin 0.9))
   \<and> sort_predictions_key (AValue (Prediction_dict
      \<lparr>prediction_score = Fin 0.9,
       prediction_output = \<lparr>output_text = ''yes'', output_score = Fin 0.9\<rparr>,
       prediction_documents = [plain_document ''doc'']\<rparr>)) = Inr (PyFloat (Fin 0), PyFloat (Fin 0.9))
   \<and> sort_predictions_key (AValue (PyStr ''yes'')) = Inl TypeError"
  using sort_predictions_key_shapes
    [of "\<lparr>prediction_score = Fin 0.9,
       prediction_output = \<lparr>output_text = ''yes'', output_score = Fin 0.9\<rparr>,
       prediction_documents = [plain_document ''doc'']\<rparr>" "PyStr ''yes''"]
  by (simp add: plain_document_def)

subsection \<open>Comparing floats and keys\<close>

lemma float_ord_inject: "float_ord a = float_ord b \<Longrightarrow> a = b"
  by (cases a; cases b) simp_all

lemma rank_eq: "rank p = ranking_key p"
  by (simp add: rank_def ranking_key_def split: list.splits)

lemma lex_le_iff:
  "((b :: 'a :: linorder), (d :: 'b :: linorder)) \<le> (a, c) \<longleftrightarrow> b < a \<or> (b = a \<and> d \<le> c)"
  by (auto simp: less_eq_prod_def)

lemma rank_ge_iff:
  assumes "no_nan x" "no_nan y"
  shows "rank_ge x y \<longleftrightarrow> key_ord y \<le> key_ord x"
proof -
  have "fst x = fst y \<longleftrightarrow> float_ord (fst y) = float_ord (fst x)"
    using float_ord_inject by auto
  with assms show ?thesis
    unfolding rank_ge_def no_nan_def key_ord_def float_lt_def float_le_def float_eq_def
      lex_le_iff
    by blast
qed

lemma no_nan_rank: "no_nan (rank p) \<longleftrightarrow> nan_free p"
  by (simp add: no_nan_def nan_free_def rank_eq)

subsection \<open>Sorting validator\<close>

lemma mset_unspecified_order: "mset (unspecified_order xs) = mset xs"
proof -
  have "\<exists>f :: 'a list \<Rightarrow> 'a list. \<forall>xs. mset (f xs) = mset xs"
    by (rule exI [of _ id]) simp
  then have "\<forall>xs :: 'a list. mset (unspecified_order xs) = mset xs"
    unfolding unspecified_order_def by (rule someI_ex)
  then show ?thesis by blast
qed

lemma mset_sorted_reverse: "mset (sorted_reverse k v) = mset v"
  by (simp add: sorted_reverse_def mset_unspecified_order)

lemma sorted_reverse_no_nan:
  "list_all (\<lambda>x. no_nan (k x)) v \<Longrightarrow>
   sorted_reverse k v = rev (sort_key (\<lambda>x. key_ord (k x)) (rev v))"
  by (simp add: sorted_reverse_def)

lemma sorted_reverse_sorted:
  assumes "list_all (\<lambda>x. no_nan (k x)) v"
  shows "sorted_wrt (\<lambda>a b. key_ord (k b) \<le> key_ord (k a)) (sorted_reverse k v)"
  using sorted_sort_key [of "\<lambda>x. key_ord (k x)" "rev v"]
  by (simp add: sorted_reverse_no_nan [OF assms] sorted_wrt_rev sorted_map)

text \<open>Without NaN, predictions of equal key keep the order they were given in.\<close>

lemma sorted_reverse_stable:
  assumes "list_all (\<lambda>x. no_nan (k x)) v"
  shows "filter (\<lambda>y. key_ord (k y) = c) (sorted_reverse k v) = filter (\<lambda>y. key_ord (k y) = c) v"
  by (simp add: sorted_reverse_no_nan [OF assms] sort_key_stable flip: rev_filter)

lemma mset_QueryOutput_init: "mset (predictions (QueryOutput_init ps)) = mset ps"
  by (simp add: QueryOutput_init_def sort_predictions_def mset_sorted_reverse)

lemma set_QueryOutput_init: "set (predictions (QueryOutput_init ps)) = set ps"
  using mset_QueryOutput_init [of ps] by (metis set_mset_mset)

lemma length_QueryOutput_init: "length (predictions (QueryOutput_init ps)) = length ps"
  using mset_QueryOutput_init [of ps] by (metis size_mset)

lemma descending_QueryOutput_init:
  assumes "\<forall>p \<in> set ps. nan_free p"
  shows "descending (predictions (QueryOutput_init ps))"
proof -
  have all: "list_all (\<lambda>x. no_nan (rank x)) ps"
    using assms by (simp add: list_all_iff no_nan_rank)
  have "sorted_wrt (\<lambda>a b. key_ord (rank b) \<le> key_ord (rank a)) (sort_predictions ps)"
    unfolding sort_predictions_def by (rule sorted_reverse_sorted [OF all])
  moreover have "rank_ge (ranking_key a) (ranking_key b)"
    if "a \<in> set (sort_predictions ps)" "b \<in> set (sort_predictions ps)"
      "key_ord (rank b) \<le> key_ord (rank a)" for a b
  proof -
    have "set (sort_predictions ps) = set ps"
      using set_QueryOutput_init [of ps] by (simp add: QueryOutput_init_def)
    with that assms have "no_nan (rank a)" "no_nan (rank b)"
      by (simp_all add: no_nan_rank)
    with that(3) show ?thesis
      by (simp add: rank_ge_iff rank_eq)
  qed
  ultimately have "sorted_wrt (\<lambda>a b. rank_ge (ranking_key a) (ranking_key b)) (sort_predictions ps)"
    by (rule sorted_wrt_mono_rel [rotated])
  then show ?thesis
    by (simp add: descending_def QueryOutput_init_def)
qed

lemma from_sequence_classification_init:
  "from_sequence_classification answers m c = Inr q \<Longrightarrow> \<exists>ps. q = QueryOutput_init ps"
  by (auto simp: from_sequence_classification_def bindE_eq_Inr)

lemma from_question_answering_init:
  "from_question_answering m c cs = Inr q \<Longrightarrow> \<exists>ps. q = QueryOutput_init ps"
  by (auto simp: from_question_answering_def bindE_eq_Inr)


text \<open>
  C1, as stated, fails. Three predictions without documents and with scores 1, NaN and 2
  are stored by the validated constructor in the order given, which is not descending:
  every comparison with NaN is false, so the sort sees nothing out of order. And the
  inherited \<^verbatim>\<open>construct\<close> stores any list as given, without running the validator.
\<close>

theorem predictions_stored_descending_counterexample:
  "QueryOutput_init
     [scored_prediction (Fin 1, ''a'', []), scored_prediction (NaN, ''b'', []),
      scored_prediction (Fin 2, ''c'', [])]
   = \<lparr>predictions =
       [scored_prediction (Fin 1, ''a'', []), scored_prediction (NaN, ''b'', []),
        scored_prediction (Fin 2, ''c'', [])]\<rparr>
   \<and> \<not> descending
       [scored_prediction (Fin 1, ''a'', []), scored_prediction (NaN, ''b'', []),
        scored_prediction (Fin 2, ''c'', [])]
   \<and> predictions (QueryOutput_construct
        [scored_prediction (Fin 1, ''a'', []), scored_prediction (Fin 2, ''c'', [])])
     = [scored_prediction (Fin 1, ''a'', []), scored_prediction (Fin 2, ''c'', [])]
   \<and> \<not> descending [scored_prediction (Fin 1, ''a'', []), scored_prediction (Fin 2, ''c'', [])]"
  by (simp add: adapter_defs QueryOutput_construct_def scored_prediction_def descending_def
      rank_ge_def ranking_key_def float_le_def float_eq_def)

text \<open>
  C1, amended. The validated constructor stores a rearrangement of the list it is given,
  and when no key holds a NaN the stored list is in descending order of the key (first
  document's score or 1, prediction score); the same holds of the predictions of every
  \<open>QueryOutput\<close> either adapter returns.
\<close>

theorem predictions_stored_descending:
  "((\<forall>p \<in> set ps. nan_free p) \<longrightarrow> descending (predictions (QueryOutput_init ps)))
   \<and> mset (predictions (QueryOutput_init ps)) = mset ps
   \<and> (from_sequence_classification answers m c = Inr q \<and> (\<forall>p \<in> set (predictions q). nan_free p)
        \<longrightarrow> descending (predictions q))
   \<and> (from_question_answering m' c' cs' = Inr q' \<and> (\<forall>p \<in> set (predictions q'). nan_free p)
        \<longrightarrow> descending (predictions q'))"
proof (intro conjI impI)
  show "descending (predictions (QueryOutput_init ps))" if "\<forall>p \<in> set ps. nan_free p"
    using that by (rule descending_QueryOutput_init)
  show "mset (predictions (QueryOutput_init ps)) = mset ps"
    by (rule mset_QueryOutput_init)
  show "descending (predictions q)"
    if "from_sequence_classification answers m c = Inr q \<and> (\<forall>p \<in> set (predictions q). nan_free p)"
  proof -
    from that obtain ps' where "q = QueryOutput_init ps'"
      using from_sequence_classification_init by blast
    with that show ?thesis
      by (simp add: descending_QueryOutput_init set_QueryOutput_init)
  qed
  show "descending (predictions q')"
    if "from_question_answering m' c' cs' = Inr q' \<and> (\<forall>p \<in> set (predictions q'). nan_free p)"
  proof -
    from that obtain ps' where "q' = QueryOutput_init ps'"
      using from_question_answering_init by blast
    with that show ?thesis
      by (simp add: descending_QueryOutput_init set_QueryOutput_init)
  qed
qed

theorem predictions_stored_descending_witness:
  "from_sequence_classification [''yes'', ''no'']
     (PyDict [(''model_outputs'', PyDict [(''logits'', PyList [PyList [PyFloat (Fin 0.1), PyFloat (Fin 0.9)]])])])
     PyNone
   = Inr \<lparr>predictions = [scored_prediction (Fin 0.9, ''no'', []), scored_prediction (Fin 0.1, ''yes'', [])]\<rparr>
   \<and> nan_free (scored_prediction (Fin 0.9, ''no'', []))
   \<and> nan_free (scored_prediction (Fin 0.1, ''yes'', []))
   \<and> descending [scored_prediction (Fin 0.9, ''no'', []), scored_prediction (Fin 0.1, ''yes'', [])]
   \<and> from_question_answering
     (PyDict [(''answers'', PyList [PyList [PyDict
        [(''answer'', PyStr ''a''), (''score'', PyFloat (Fin 0.2)),
         (''start'', PyInt 0), (''end'', PyInt 1)]],
        PyList [PyDict
        [(''answer'', PyStr ''b''), (''score'', PyFloat (Fin 0.7)),
         (''start'', PyInt 2), (''end'', PyInt 3)]]])])
     PyNone PyNone
   = Inr \<lparr>predictions = [scored_prediction (Fin 0.7, ''b'', []), scored_prediction (Fin 0.2, ''a'', [])]\<rparr>
   \<and> descending [scored_prediction (Fin 0.7, ''b'', []), scored_prediction (Fin 0.2, ''a'', [])]
   \<and> predictions (QueryOutput_init
        [scored_prediction (Fin 0.9, ''x'', [plain_document ''doc'']), scored_prediction (Fin 0.1, ''y'', [])])
      = [scored_prediction (Fin 0.1, ''y'', []), scored_prediction (Fin 0.9, ''x'', [plain_document ''doc''])]
   \<and> descending [scored_prediction (Fin 0.1, ''y'', []), scored_prediction (Fin 0.9, ''x'', [plain_document ''doc''])]"
  using predictions_stored_descending
    [of "[scored_prediction (Fin 0.9, ''x'', [plain_document ''doc'']), scored_prediction (Fin 0.1, ''y'', [])]"
      "[''yes'', ''no'']"
      "PyDict [(''model_outputs'', PyDict [(''logits'', PyList [PyList [PyFloat (Fin 0.1), PyFloat (Fin 0.9)]])])]"
      PyNone
      "\<lparr>predictions = [scored_prediction (Fin 0.9, ''no'', []), scored_prediction (Fin 0.1, ''yes'', [])]\<rparr>"
      "PyDict [(''answers'', PyList [PyList [PyDict
        [(''answer'', PyStr ''a''), (''score'', PyFloat (Fin 0.2)),
         (''start'', PyInt 0), (''end'', PyInt 1)]],
        PyList [PyDict
        [(''answer'', PyStr ''b''), (''score'', PyFloat (Fin 0.7)),
         (''start'', PyInt 2), (''end'', PyInt 3)]]])]"
      PyNone PyNone
      "\<lparr>predictions = [scored_prediction (Fin 0.7, ''b'', []), scored_prediction (Fin 0.2, ''a'', [])]\<rparr>"]
  by (simp add: adapter_defs scored_prediction_def plain_document_def eval_nat_numeral
      nan_free_def ranking_key_def)




subsection \<open>Context fan-out\<close>

lemma PredictionDocument_init_document:
  "PredictionDocument_init [(''document'', PyStr s)] = Inr (plain_document s)"
  by (simp add: PredictionDocument_init_def field_def plain_document_def)

lemma fan_out_length:
  "prediction_documents_iter_from_context n c = Inr docs \<Longrightarrow> length docs = nat n"
  by (auto simp: prediction_documents_iter_from_context_def dest!: mapE_length
      split: pyval.splits if_splits)

lemma fan_out_absent:
  "prediction_documents_iter_from_context (int n) PyNone = Inr (replicate n [])"
  by (simp add: prediction_documents_iter_from_context_def)

lemma fan_out_shared:
  "prediction_documents_iter_from_context (int n) (PyStr s) = Inr (replicate n [plain_document s])"
  by (simp add: prediction_documents_iter_from_context_def mapE_replicate
      PredictionDocument_init_document)

text \<open>
  C4. For a count \<open>n\<close>: an absent context gives \<open>n\<close> empty lists; a single text gives \<open>n\<close>
  singleton lists, each holding the document that wraps the text with no span and the
  default score; a list of exactly \<open>n\<close> texts gives the singleton lists of the wrapped
  texts, in order; a list of any other length fails with \<open>ValueError\<close> (whatever its
  elements are); a context that is neither absent, a text nor a list fails with
  \<open>TypeError\<close>.
\<close>

theorem fan_out:
  "prediction_documents_iter_from_context (int n) PyNone = Inr (replicate n [])
   \<and> prediction_documents_iter_from_context (int n) (PyStr s) = Inr (replicate n [plain_document s])
   \<and> (length cs = n \<longrightarrow>
        prediction_documents_iter_from_context (int n) (PyList (map PyStr cs))
          = Inr (map (\<lambda>c. [plain_document c]) cs))
   \<and> (length vs \<noteq> n \<longrightarrow> prediction_documents_iter_from_context (int n) (PyList vs) = Inl ValueError)
   \<and> (v \<noteq> PyNone \<and> (\<forall>t. v \<noteq> PyStr t) \<and> (\<forall>xs. v \<noteq> PyList xs) \<longrightarrow>
        prediction_documents_iter_from_context (int n) v = Inl TypeError)"
proof (intro conjI impI)
  show "prediction_documents_iter_from_context (int n) PyNone = Inr (replicate n [])"
    by (rule fan_out_absent)
  show "prediction_documents_iter_from_context (int n) (PyStr s) = Inr (replicate n [plain_document s])"
    by (rule fan_out_shared)
  show "prediction_documents_iter_from_context (int n) (PyList (map PyStr cs))
          = Inr (map (\<lambda>c. [plain_document c]) cs)" if "length cs = n"
  proof -
    have "mapE (\<lambda>c. bindE (PredictionDocument_init [(''document'', c)]) (\<lambda>d. Inr [d]))
            (map PyStr cs) = Inr (map (\<lambda>c. [plain_document c]) cs)"
      by (induction cs) (simp_all add: PredictionDocument_init_document)
    with that show ?thesis
      by (simp add: prediction_documents_iter_from_context_def)
  qed
  show "prediction_documents_iter_from_context (int n) (PyList vs) = Inl ValueError"
    if "length vs \<noteq> n"
    using that by (simp add: prediction_documents_iter_from_context_def)
  show "prediction_documents_iter_from_context (int n) v = Inl TypeError"
    if "v \<noteq> PyNone \<and> (\<forall>t. v \<noteq> PyStr t) \<and> (\<forall>xs. v \<noteq> PyList xs)"
    using that by (cases v) (simp_all add: prediction_documents_iter_from_context_def)
qed

theorem fan_out_witness:
  "prediction_documents_iter_from_context 3 PyNone = Inr [[], [], []]
   \<and> prediction_documents_iter_from_context 3 (PyStr ''doc'')
       = Inr [[plain_document ''doc''], [plain_document ''doc''], [plain_document ''doc'']]
   \<and> prediction_documents_iter_from_context 3 (PyList [PyStr ''a'', PyStr ''b'', PyStr ''c''])
       = Inr [[plain_document ''a''], [plain_document ''b''], [plain_document ''c'']]
   \<and> prediction_documents_iter_from_context 3 (PyList [PyStr ''a'', PyStr ''b'']) = Inl ValueError
   \<and> prediction_documents_iter_from_context 3 (PyInt 7) = Inl TypeError"
  using fan_out [of 3 "''doc''" "[''a'', ''b'', ''c'']" "[PyStr ''a'', PyStr ''b'']" "PyInt 7"]
  by (simp add: eval_nat_numeral)

subsection \<open>Question-answering adapter\<close>

text \<open>
  C3. The scenario of the specification: one passage with one answer record (empty
  answer text, score 0.5, span 0 to 0), context \<^verbatim>\<open>"ctx"\<close>, context score 1. The adapter
  attaches exactly one document with the context text and the span, but the document's
  \<open>document_score\<close> is the default 0 and not the context score 1: the score is passed
  under the keyword \<^verbatim>\<open>score\<close>, which names no field of \<^verbatim>\<open>PredictionDocument\<close>.
\<close>

theorem question_answering_document_score_dropped:
  "from_question_answering
     (PyDict [(''answers'', PyList [PyList [PyDict
        [(''answer'', PyStr []), (''score'', PyFloat (Fin 0.5)),
         (''start'', PyInt 0), (''end'', PyInt 0)]]])])
     (PyStr ''ctx'') (PyInt 1)
   = Inr \<lparr>predictions =
       [\<lparr>prediction_score = Fin 0.5,
         prediction_output = \<lparr>output_text = ''No answer found.'', output_score = Fin 0.5\<rparr>,
         prediction_documents =
           [\<lparr>index = [], document_id = [], document = ''ctx'', span = Some [0, 0],
             url = [], source = [], document_score = Fin 0\<rparr>]\<rparr>]\<rparr>"
  by (simp add: adapter_defs)

lemma from_question_answering_records:
  assumes "from_question_answering m c cs = Inr q"
    and "py_getitem m ''answers'' = Inr a" "py_iter a = Inr passages"
    and "i < length passages" "py_iter (passages ! i) = Inr records" "r \<in> set records"
  shows "\<exists>d s p. resolve_context c cs i = Inr (d, s)
           \<and> question_answering_prediction d s r = Inr p \<and> p \<in> set (predictions q)"
proof -
  from assms(1-3) obtain per_passage
    where pp: "mapE (question_answering_passage c cs) (enumerate 0 passages) = Inr per_passage"
      and q: "q = QueryOutput_init (concat per_passage)"
    by (auto simp: from_question_answering_def bindE_eq_Inr)
  from mapE_nth [OF pp, of i] assms(4)
  have "question_answering_passage c cs (i, passages ! i) = Inr (per_passage ! i)"
    by (simp add: nth_enumerate_eq)
  with assms(5) obtain d s where ds: "resolve_context c cs i = Inr (d, s)"
    and recs: "mapE (question_answering_prediction d s) records = Inr (per_passage ! i)"
    by (auto simp: question_answering_passage_def bindE_eq_Inr)
  from assms(6) obtain k where k: "k < length records" "records ! k = r"
    by (auto simp: in_set_conv_nth)
  from mapE_nth [OF recs k(1)] k(2)
  have p: "question_answering_prediction d s r = Inr (per_passage ! i ! k)"
    by simp
  from mapE_length [OF pp] assms(4) have "i < length per_passage"
    by simp
  moreover from mapE_length [OF recs] k(1) have "k < length (per_passage ! i)"
    by simp
  ultimately have "per_passage ! i ! k \<in> set (concat per_passage)"
    by (metis nth_mem set_concat UN_I)
  with q have "per_passage ! i ! k \<in> set (predictions q)"
    by (simp add: set_QueryOutput_init)
  with ds p show ?thesis by blast
qed

lemma question_answering_prediction_output:
  assumes "question_answering_prediction d s r = Inr p"
  shows "\<exists>v0 v. py_getitem r ''answer'' = Inr v0 \<and> py_getitem r ''score'' = Inr v
           \<and> str_validator (if py_truthy v0 then v0 else PyStr ''No answer found.'')
               = Inr (output_text (prediction_output p))
           \<and> float_validator v = Inr (prediction_score p)
           \<and> output_score (prediction_output p) = prediction_score p"
  using assms
  by (auto simp: question_answering_prediction_def bindE_eq_Inr PredictionOutput_init_def
      Prediction_init_def field_def)



lemma from_question_answering_passage_fails:
  assumes "py_getitem m ''answers'' = Inr a" "py_iter a = Inr passages"
    and "i < length passages" "question_answering_passage c cs (i, passages ! i) = Inl e"
  shows "\<exists>e'. from_question_answering m c cs = Inl e'"
proof -
  from assms(3,4) have "i < length (enumerate 0 passages)"
    "question_answering_passage c cs (enumerate 0 passages ! i) = Inl e"
    by (simp_all add: nth_enumerate_eq)
  with mapE_fails [of i "enumerate 0 passages" "question_answering_passage c cs" e]
  obtain e'
    where "mapE (question_answering_passage c cs) (enumerate 0 passages) = Inl e'"
    by blast
  with assms(1,2) show ?thesis
    by (simp add: from_question_answering_def)
qed

lemma from_question_answering_resolves:
  assumes "from_question_answering m c cs = Inr q"
    and "py_getitem m ''answers'' = Inr a" "py_iter a = Inr passages" "k < length passages"
  shows "\<exists>d s. resolve_context c cs k = Inr (d, s)"
proof (cases "resolve_context c cs k")
  case (Inl e)
  then have "question_answering_passage c cs (k, passages ! k) = Inl e"
    by (simp add: question_answering_passage_def)
  from from_question_answering_passage_fails [OF assms(2,3,4) this] assms(1) show ?thesis
    by simp
next
  case (Inr ds)
  then show ?thesis by (cases ds) simp
qed

text \<open>
  C7, as stated, fails: with an absent context and a list of context scores (one is a
  sequence, the other is not) the adapter returns a \<open>QueryOutput\<close>.
\<close>

theorem mismatched_context_shapes_counterexample:
  "is_list (PyList [PyFloat (Fin 0.5)]) \<and> \<not> is_list PyNone
   \<and> from_question_answering
     (PyDict [(''answers'', PyList [PyList [PyDict
        [(''answer'', PyStr ''a''), (''score'', PyFloat (Fin 0.5)),
         (''start'', PyInt 0), (''end'', PyInt 1)]]])])
     PyNone (PyList [PyFloat (Fin 0.5)])
   = Inr \<lparr>predictions = [scored_prediction (Fin 0.5, ''a'', [])]\<rparr>"
  by (simp add: adapter_defs scored_prediction_def)

text \<open>
  C7, amended. A list context with a context score that is not a list fails with
  \<open>AssertionError\<close> as soon as there is a first passage. With an absent context the
  document text is empty and the score is 1, and the context score is not looked at.
  Whenever the adapter returns, the prediction of every record of passage \<open>k\<close> is the one
  built with the context resolved at index \<open>k\<close>; for two lists these are their elements
  at index \<open>k\<close>, which must exist for every passage, and a passage whose context does
  not resolve (\<open>IndexError\<close> when either list is too short) makes the adapter fail.
\<close>

theorem context_shapes_resolved:
  "(is_list c \<and> \<not> is_list cs \<and> py_getitem m ''answers'' = Inr a \<and> py_iter a = Inr (x # xs) \<longrightarrow>
      from_question_answering m c cs = Inl AssertionError)
   \<and> resolve_context (PyList ds) (PyList ss) i
       = (if i < length ds \<and> i < length ss then Inr (ds ! i, ss ! i) else Inl IndexError)
   \<and> resolve_context PyNone cs' i = Inr (PyStr [], PyInt 1)
   \<and> from_question_answering m PyNone cs' = from_question_answering m PyNone PyNone
   \<and> (from_question_answering m c cs = Inr q \<and> py_getitem m ''answers'' = Inr a
        \<and> py_iter a = Inr passages \<and> k < length passages
        \<and> py_iter (passages ! k) = Inr records \<and> r \<in> set records \<longrightarrow>
        (\<exists>d s p. resolve_context c cs k = Inr (d, s)
           \<and> question_answering_prediction d s r = Inr p \<and> p \<in> set (predictions q)))
   \<and> (from_question_answering m (PyList ds) (PyList ss) = Inr q \<and> py_getitem m ''answers'' = Inr a
        \<and> py_iter a = Inr passages \<and> k < length passages \<longrightarrow>
        k < length ds \<and> k < length ss)
   \<and> (from_question_answering m (PyList ds) (PyList ss) = Inr q \<and> py_getitem m ''answers'' = Inr a
        \<and> py_iter a = Inr passages \<and> k < length passages
        \<and> py_iter (passages ! k) = Inr records \<and> r \<in> set records \<longrightarrow>
        (\<exists>p \<in> set (predictions q). question_answering_prediction (ds ! k) (ss ! k) r = Inr p))
   \<and> (py_getitem m ''answers'' = Inr a \<and> py_iter a = Inr passages \<and> k < length passages
        \<and> resolve_context c cs k = Inl e \<longrightarrow>
        (\<exists>e'. from_question_answering m c cs = Inl e'))"
proof (intro conjI impI)
  show "from_question_answering m c cs = Inl AssertionError"
    if "is_list c \<and> \<not> is_list cs \<and> py_getitem m ''answers'' = Inr a \<and> py_iter a = Inr (x # xs)"
    using that
    by (simp add: from_question_answering_def enumerate_eq_zip upt_rec [of 0]
        question_answering_passage_def resolve_context_def)
  show res: "resolve_context (PyList ds) (PyList ss) i
       = (if i < length ds \<and> i < length ss then Inr (ds ! i, ss ! i) else Inl IndexError)" for i
    by (simp add: resolve_context_def)
  show "resolve_context PyNone cs' i = Inr (PyStr [], PyInt 1)"
    by (simp add: resolve_context_def)
  have "question_answering_passage PyNone cs' = question_answering_passage PyNone PyNone"
    by (rule ext) (simp add: question_answering_passage_def resolve_context_def split: prod.splits)
  then show "from_question_answering m PyNone cs' = from_question_answering m PyNone PyNone"
    by (simp add: from_question_answering_def)
  show "\<exists>d s p. resolve_context c cs k = Inr (d, s)
           \<and> question_answering_prediction d s r = Inr p \<and> p \<in> set (predictions q)"
    if "from_question_answering m c cs = Inr q \<and> py_getitem m ''answers'' = Inr a
        \<and> py_iter a = Inr passages \<and> k < length passages
        \<and> py_iter (passages ! k) = Inr records \<and> r \<in> set records"
    using that from_question_answering_records [of m c cs q a passages k records r] by blast
  have kk: "k < length ds \<and> k < length ss"
    if "from_question_answering m (PyList ds) (PyList ss) = Inr q \<and> py_getitem m ''answers'' = Inr a
        \<and> py_iter a = Inr passages \<and> k < length passages"
    using that from_question_answering_resolves [of m "PyList ds" "PyList ss" q a passages k]
      res [of k]
    by (auto split: if_splits)
  show "k < length ds"
    if "from_question_answering m (PyList ds) (PyList ss) = Inr q \<and> py_getitem m ''answers'' = Inr a
        \<and> py_iter a = Inr passages \<and> k < length passages"
    using kk [OF that] by simp
  show "k < length ss"
    if "from_question_answering m (PyList ds) (PyList ss) = Inr q \<and> py_getitem m ''answers'' = Inr a
        \<and> py_iter a = Inr passages \<and> k < length passages"
    using kk [OF that] by simp
  show "\<exists>p \<in> set (predictions q). question_answering_prediction (ds ! k) (ss ! k) r = Inr p"
    if "from_question_answering m (PyList ds) (PyList ss) = Inr q \<and> py_getitem m ''answers'' = Inr a
        \<and> py_iter a = Inr passages \<and> k < length passages
        \<and> py_iter (passages ! k) = Inr records \<and> r \<in> set records"
    using that
      from_question_answering_records [of m "PyList ds" "PyList ss" q a passages k records r]
      res [of k]
    by (auto split: if_splits)
  show "\<exists>e'. from_question_answering m c cs = Inl e'"
    if "py_getitem m ''answers'' = Inr a \<and> py_iter a = Inr passages \<and> k < length passages
        \<and> resolve_context c cs k = Inl e"
  proof -
    from that have "question_answering_passage c cs (k, passages ! k) = Inl e"
      by (simp add: question_answering_passage_def)
    with that from_question_answering_passage_fails show ?thesis
      by blast
  qed
qed

theorem context_shapes_resolved_witness:
  "from_question_answering
     (PyDict [(''answers'', PyList
       [PyList [PyDict [(''answer'', PyStr ''a''), (''score'', PyFloat (Fin 0.5)), (''start'', PyInt 0), (''end'', PyInt 1)]],
        PyList [PyDict [(''answer'', PyStr ''b''), (''score'', PyFloat (Fin 0.25)), (''start'', PyInt 2), (''end'', PyInt 3)]]])])
     (PyList [PyStr ''p'', PyStr ''q'']) (PyList [PyFloat (Fin 0.3), PyFloat (Fin 0.6)])
   = Inr \<lparr>predictions =
       [scored_prediction (Fin 0.5, ''a'', [(plain_document ''p'')\<lparr>span := Some [0, 1]\<rparr>]),
        scored_prediction (Fin 0.25, ''b'', [(plain_document ''q'')\<lparr>span := Some [2, 3]\<rparr>])]\<rparr>
   \<and> (\<exists>p \<in> set [scored_prediction (Fin 0.5, ''a'', [(plain_document ''p'')\<lparr>span := Some [0, 1]\<rparr>]),
                 scored_prediction (Fin 0.25, ''b'', [(plain_document ''q'')\<lparr>span := Some [2, 3]\<rparr>])].
         question_answering_prediction (PyStr ''q'') (PyFloat (Fin 0.6))
           (PyDict [(''answer'', PyStr ''b''), (''score'', PyFloat (Fin 0.25)), (''start'', PyInt 2), (''end'', PyInt 3)]) = Inr p)
   \<and> is_list (PyList [PyStr ''p'', PyStr ''q'']) \<and> \<not> is_list (PyFloat (Fin 0.5))
   \<and> from_question_answering
     (PyDict [(''answers'', PyList
       [PyList [PyDict [(''answer'', PyStr ''a''), (''score'', PyFloat (Fin 0.5)), (''start'', PyInt 0), (''end'', PyInt 1)]],
        PyList [PyDict [(''answer'', PyStr ''b''), (''score'', PyFloat (Fin 0.25)), (''start'', PyInt 2), (''end'', PyInt 3)]]])])
     (PyList [PyStr ''p'', PyStr ''q'']) (PyFloat (Fin 0.5))
   = Inl AssertionError
   \<and> resolve_context (PyList [PyStr ''p'', PyStr ''q'']) (PyList [PyFloat (Fin 0.3), PyFloat (Fin 0.6)]) 1 = Inr (PyStr ''q'', PyFloat (Fin 0.6))
   \<and> resolve_context (PyList [PyStr ''p'', PyStr ''q'']) (PyList [PyFloat (Fin 0.3)]) 1 = Inl IndexError
   \<and> (\<exists>e. from_question_answering
     (PyDict [(''answers'', PyList
       [PyList [PyDict [(''answer'', PyStr ''a''), (''score'', PyFloat (Fin 0.5)), (''start'', PyInt 0), (''end'', PyInt 1)]],
        PyList [PyDict [(''answer'', PyStr ''b''), (''score'', PyFloat (Fin 0.25)), (''start'', PyInt 2), (''end'', PyInt 3)]]])])
     (PyList [PyStr ''p'', PyStr ''q'']) (PyList [PyFloat (Fin 0.3)]) = Inl e)"
  using context_shapes_resolved
    [where m = "PyDict [(''answers'', PyList
       [PyList [PyDict [(''answer'', PyStr ''a''), (''score'', PyFloat (Fin 0.5)), (''start'', PyInt 0), (''end'', PyInt 1)]],
        PyList [PyDict [(''answer'', PyStr ''b''), (''score'', PyFloat (Fin 0.25)), (''start'', PyInt 2), (''end'', PyInt 3)]]])]"
       and c = "PyList [PyStr ''p'', PyStr ''q'']" and cs = "PyFloat (Fin 0.5)"
       and a = "PyList [PyList [PyDict [(''answer'', PyStr ''a''), (''score'', PyFloat (Fin 0.5)), (''start'', PyInt 0), (''end'', PyInt 1)]],
        PyList [PyDict [(''answer'', PyStr ''b''), (''score'', PyFloat (Fin 0.25)), (''start'', PyInt 2), (''end'', PyInt 3)]]]"
       and x = "PyList [PyDict [(''answer'', PyStr ''a''), (''score'', PyFloat (Fin 0.5)), (''start'', PyInt 0), (''end'', PyInt 1)]]"
       and xs = "[PyList [PyDict [(''answer'', PyStr ''b''), (''score'', PyFloat (Fin 0.25)), (''start'', PyInt 2), (''end'', PyInt 3)]]]"
       and ds = "[PyStr ''p'', PyStr ''q'']" and ss = "[PyFloat (Fin 0.3), PyFloat (Fin 0.6)]"
       and i = 1 and k = 1
       and passages = "[PyList [PyDict [(''answer'', PyStr ''a''), (''score'', PyFloat (Fin 0.5)), (''start'', PyInt 0), (''end'', PyInt 1)]],
        PyList [PyDict [(''answer'', PyStr ''b''), (''score'', PyFloat (Fin 0.25)), (''start'', PyInt 2), (''end'', PyInt 3)]]]"
       and records = "[PyDict [(''answer'', PyStr ''b''), (''score'', PyFloat (Fin 0.25)), (''start'', PyInt 2), (''end'', PyInt 3)]]"
       and r = "PyDict [(''answer'', PyStr ''b''), (''score'', PyFloat (Fin 0.25)), (''start'', PyInt 2), (''end'', PyInt 3)]"
       and q = "\<lparr>predictions =
       [scored_prediction (Fin 0.5, ''a'', [(plain_document ''p'')\<lparr>span := Some [0, 1]\<rparr>]),
        scored_prediction (Fin 0.25, ''b'', [(plain_document ''q'')\<lparr>span := Some [2, 3]\<rparr>])]\<rparr>"]
    context_shapes_resolved
    [where m = "PyDict [(''answers'', PyList
       [PyList [PyDict [(''answer'', PyStr ''a''), (''score'', PyFloat (Fin 0.5)), (''start'', PyInt 0), (''end'', PyInt 1)]],
        PyList [PyDict [(''answer'', PyStr ''b''), (''score'', PyFloat (Fin 0.25)), (''start'', PyInt 2), (''end'', PyInt 3)]]])]"
       and c = "PyList [PyStr ''p'', PyStr ''q'']" and cs = "PyList [PyFloat (Fin 0.3)]"
       and a = "PyList [PyList [PyDict [(''answer'', PyStr ''a''), (''score'', PyFloat (Fin 0.5)), (''start'', PyInt 0), (''end'', PyInt 1)]],
        PyList [PyDict [(''answer'', PyStr ''b''), (''score'', PyFloat (Fin 0.25)), (''start'', PyInt 2), (''end'', PyInt 3)]]]"
       and ds = "[PyStr ''p'', PyStr ''q'']" and ss = "[PyFloat (Fin 0.3)]"
       and i = 1 and k = 1 and e = IndexError
       and passages = "[PyList [PyDict [(''answer'', PyStr ''a''), (''score'', PyFloat (Fin 0.5)), (''start'', PyInt 0), (''end'', PyInt 1)]],
        PyList [PyDict [(''answer'', PyStr ''b''), (''score'', PyFloat (Fin 0.25)), (''start'', PyInt 2), (''end'', PyInt 3)]]]"]
  by (simp add: adapter_defs scored_prediction_def plain_document_def)

subsection \<open>Sequence-classification adapter\<close>

lemma sequence_classification_prediction_valid:
  "float_validator v = Inr r \<Longrightarrow>
   sequence_classification_prediction (v, a, d) = Inr (scored_prediction (r, a, d))"
  by (simp add: sequence_classification_prediction_def PredictionOutput_init_def
      Prediction_init_def field_def scored_prediction_def)

lemma sequence_classification_predictions:
  "mapE float_validator row = Inr rs \<Longrightarrow>
   mapE sequence_classification_prediction (zip row (zip answers docs))
     = Inr (map scored_prediction (zip rs (zip answers docs)))"
proof (induction row arbitrary: rs answers docs)
  case Nil
  then show ?case by simp
next
  case (Cons v row)
  from Cons.prems obtain r rs' where r: "float_validator v = Inr r"
    and rs': "mapE float_validator row = Inr rs'" and rs: "rs = r # rs'"
    by (auto simp: bindE_eq_Inr)
  show ?case
  proof (cases answers)
    case Nil
    then show ?thesis by simp
  next
    case answers: (Cons a answers')
    show ?thesis
    proof (cases docs)
      case Nil
      with answers show ?thesis by simp
    next
      case (Cons d docs')
      with answers rs r Cons.IH [OF rs', of answers' docs'] show ?thesis
        by (simp add: sequence_classification_prediction_valid)
    qed
  qed
qed

lemma from_sequence_classification_valid:
  assumes "prediction_documents_iter_from_context (int (length answers)) context = Inr docs"
    and "logits_row m = Inr (PyList row)"
    and "mapE float_validator row = Inr rs"
  shows "from_sequence_classification answers m context
           = Inr (QueryOutput_init (map scored_prediction (zip rs (zip answers docs))))"
  using assms by (simp add: from_sequence_classification_def sequence_classification_predictions)

lemma mapE_in_set: "mapE f xs = Inr ys \<Longrightarrow> y \<in> set ys \<Longrightarrow> \<exists>x \<in> set xs. f x = Inr y"
proof (induction xs arbitrary: ys)
  case Nil
  then show ?case by simp
next
  case (Cons x xs)
  then show ?case by (auto simp: bindE_eq_Inr)
qed

lemma PredictionDocument_init_default_score:
  "PredictionDocument_init [(''document'', c)] = Inr d \<Longrightarrow> document_score d = Fin 0"
  by (auto simp: PredictionDocument_init_def field_def bindE_eq_Inr)

lemma fan_out_default_score:
  assumes "prediction_documents_iter_from_context n c = Inr docs" "ds \<in> set docs" "d \<in> set ds"
  shows "document_score d = Fin 0"
proof -
  have *: "document_score d = Fin 0"
    if "mapE (\<lambda>c. bindE (PredictionDocument_init [(''document'', g c)]) (\<lambda>d. Inr [d])) xs = Inr docs"
    for g :: "'x \<Rightarrow> pyval" and xs
  proof -
    from mapE_in_set [OF that assms(2)] obtain x
      where "bindE (PredictionDocument_init [(''document'', g x)]) (\<lambda>d. Inr [d]) = Inr ds"
      by blast
    with assms(3) show ?thesis
      by (auto simp: bindE_eq_Inr dest: PredictionDocument_init_default_score)
  qed
  show ?thesis
  proof (cases c)
    case PyNone
    with assms show ?thesis
      by (auto simp: prediction_documents_iter_from_context_def)
  next
    case (PyStr s)
    with assms(1) * [of "\<lambda>_. c" "replicate (nat n) ()"] show ?thesis
      by (simp add: prediction_documents_iter_from_context_def)
  next
    case (PyList cs)
    with assms(1) * [of "\<lambda>c. c" cs] show ?thesis
      by (simp add: prediction_documents_iter_from_context_def split: if_splits)
  qed (use assms(1) in \<open>simp_all add: prediction_documents_iter_from_context_def\<close>)
qed

lemma nan_free_scored_prediction:
  "r \<noteq> NaN \<Longrightarrow> \<forall>d \<in> set ds. document_score d = Fin 0 \<Longrightarrow> nan_free (scored_prediction (r, a, ds))"
  by (cases ds) (simp_all add: nan_free_def ranking_key_def scored_prediction_def)

text \<open>
  C5, as stated, fails: on the logits row 1, NaN, 2 the adapter builds the three
  predictions and returns them in the order 1, NaN, 2, which is not sorted by the
  ranking key.
\<close>

theorem sequence_classification_builds_predictions_counterexample:
  "from_sequence_classification [''a'', ''b'', ''c'']
     (PyDict [(''model_outputs'', PyDict [(''logits'',
        PyList [PyList [PyFloat (Fin 1), PyFloat NaN, PyFloat (Fin 2)]])])])
     PyNone
   = Inr \<lparr>predictions =
       [scored_prediction (Fin 1, ''a'', []), scored_prediction (NaN, ''b'', []),
        scored_prediction (Fin 2, ''c'', [])]\<rparr>
   \<and> \<not> descending
       [scored_prediction (Fin 1, ''a'', []), scored_prediction (NaN, ''b'', []),
        scored_prediction (Fin 2, ''c'', [])]"
  by (simp add: adapter_defs scored_prediction_def descending_def rank_ge_def ranking_key_def
      float_le_def float_eq_def eval_nat_numeral)

text \<open>
  C5, amended. When the logits row is a list of numbers at least as long as \<open>answers\<close>
  and the helper accepts the context, the adapter returns the \<open>QueryOutput\<close> of the
  predictions built from the zipped triples (score, answer, documents): the answer as
  output text, the score as output score and as prediction score, the helper's list at
  that position as documents; one per answer; and in descending rank order when none of
  the scores used is NaN.
\<close>

theorem sequence_classification_builds_predictions:
  assumes "logits_row m = Inr (PyList row)" "mapE float_validator row = Inr rs"
    and "length answers \<le> length row"
    and "prediction_documents_iter_from_context (int (length answers)) context = Inr docs"
  shows "\<exists>q. from_sequence_classification answers m context = Inr q
           \<and> q = QueryOutput_init (map scored_prediction (zip rs (zip answers docs)))
           \<and> mset (predictions q) = mset (map scored_prediction (zip rs (zip answers docs)))
           \<and> length (predictions q) = length answers
           \<and> length docs = length answers
           \<and> (NaN \<notin> set (take (length answers) rs) \<longrightarrow> descending (predictions q))"
proof -
  let ?ps = "map scored_prediction (zip rs (zip answers docs))"
  have docs: "length docs = length answers"
    using fan_out_length [OF assms(4)] by simp
  moreover have "length rs = length row"
    by (rule mapE_length [OF assms(2)])
  ultimately have len: "length ?ps = length answers"
    using assms(3) by simp
  have "descending (predictions (QueryOutput_init ?ps))"
    if nan: "NaN \<notin> set (take (length answers) rs)"
  proof (rule descending_QueryOutput_init, rule ballI)
    fix p assume "p \<in> set ?ps"
    then obtain r a ds where p: "p = scored_prediction (r, a, ds)"
      and mem: "(r, a, ds) \<in> set (zip rs (zip answers docs))"
      by auto
    from mem obtain i where i: "i < length rs" "i < length (zip answers docs)"
      "rs ! i = r" "zip answers docs ! i = (a, ds)"
      by (auto simp: in_set_zip)
    then have "i < length answers" "ds = docs ! i" "i < length docs"
      by simp_all
    with i(1,3) have "r \<in> set (take (length answers) rs)"
      by (auto simp: in_set_conv_nth intro!: exI [of _ i])
    with nan have "r \<noteq> NaN" by auto
    moreover have "\<forall>d \<in> set ds. document_score d = Fin 0"
      using fan_out_default_score [OF assms(4)] \<open>ds = docs ! i\<close> \<open>i < length docs\<close>
      by (metis nth_mem)
    ultimately show "nan_free p"
      unfolding p by (rule nan_free_scored_prediction)
  qed
  with docs len show ?thesis
    using from_sequence_classification_valid [OF assms(4,1,2)]
    by (simp add: mset_QueryOutput_init length_QueryOutput_init)
qed

theorem sequence_classification_builds_predictions_witness:
  "logits_row
     (PyDict [(''model_outputs'', PyDict [(''logits'',
        PyList [PyList [PyFloat (Fin 0.1), PyFloat (Fin 0.9), PyInt 3]])])])
   = Inr (PyList [PyFloat (Fin 0.1), PyFloat (Fin 0.9), PyInt 3])
   \<and> mapE float_validator [PyFloat (Fin 0.1), PyFloat (Fin 0.9), PyInt 3]
       = Inr [Fin 0.1, Fin 0.9, Fin 3]
   \<and> length [''yes'', ''no''] \<le> length [PyFloat (Fin 0.1), PyFloat (Fin 0.9), PyInt 3]
   \<and> prediction_documents_iter_from_context (int (length [''yes'', ''no'']))
        (PyList [PyStr ''a'', PyStr ''b'']) = Inr [[plain_document ''a''], [plain_document ''b'']]
   \<and> NaN \<notin> set (take (length [''yes'', ''no'']) [Fin 0.1, Fin 0.9, Fin 3])
   \<and> from_sequence_classification [''yes'', ''no'']
     (PyDict [(''model_outputs'', PyDict [(''logits'',
        PyList [PyList [PyFloat (Fin 0.1), PyFloat (Fin 0.9), PyInt 3]])])])
     (PyList [PyStr ''a'', PyStr ''b''])
   = Inr \<lparr>predictions = [scored_prediction (Fin 0.9, ''no'', [plain_document ''b'']),
                          scored_prediction (Fin 0.1, ''yes'', [plain_document ''a''])]\<rparr>
   \<and> descending [scored_prediction (Fin 0.9, ''no'', [plain_document ''b'']),
                 scored_prediction (Fin 0.1, ''yes'', [plain_document ''a''])]"
  using sequence_classification_builds_predictions
    [of "PyDict [(''model_outputs'', PyDict [(''logits'',
           PyList [PyList [PyFloat (Fin 0.1), PyFloat (Fin 0.9), PyInt 3]])])]"
       "[PyFloat (Fin 0.1), PyFloat (Fin 0.9), PyInt 3]" "[Fin 0.1, Fin 0.9, Fin 3]"
       "[''yes'', ''no'']"
       "PyList [PyStr ''a'', PyStr ''b'']" "[[plain_document ''a''], [plain_document ''b'']]"]
  by (simp add: adapter_defs scored_prediction_def plain_document_def)

lemma answers_of_scored_predictions:
  "map (\<lambda>p. output_text (prediction_output p)) (map scored_prediction (zip rs (zip answers docs)))
     = take (min (length rs) (length docs)) answers"
proof (induction rs arbitrary: answers docs)
  case Nil
  then show ?case by simp
next
  case (Cons r rs)
  show ?case
  proof (cases answers)
    case Nil
    then show ?thesis by simp
  next
    case a: (Cons a answers')
    show ?thesis
    proof (cases docs)
      case Nil
      then show ?thesis by simp
    next
      case (Cons d docs')
      with a Cons.IH [of answers' docs'] show ?thesis
        by (simp add: scored_prediction_def)
    qed
  qed
qed

text \<open>
  C9. With an absent or single-text context and a logits row of numbers strictly
  shorter than \<open>answers\<close>, the adapter raises nothing and returns as many predictions
  as the row has scores, for the leading answers only.
\<close>

theorem short_logits_row_drops_answers:
  assumes "context = PyNone \<or> context = PyStr s"
    and "logits_row m = Inr (PyList row)" "mapE float_validator row = Inr rs"
    and "length row < length answers"
  shows "\<exists>q. from_sequence_classification answers m context = Inr q
           \<and> length (predictions q) = length row
           \<and> mset (map (\<lambda>p. output_text (prediction_output p)) (predictions q))
               = mset (take (length row) answers)"
proof -
  from assms(1) obtain docs
    where docs: "prediction_documents_iter_from_context (int (length answers)) context = Inr docs"
    using fan_out_absent fan_out_shared by blast
  let ?ps = "map scored_prediction (zip rs (zip answers docs))"
  have len: "length docs = length answers" "length rs = length row"
    using fan_out_length [OF docs] mapE_length [OF assms(3)] by simp_all
  with assms(4) have "length ?ps = length row"
    by simp
  moreover have "map (\<lambda>p. output_text (prediction_output p)) ?ps = take (length row) answers"
    using len assms(4) answers_of_scored_predictions [of rs answers docs] by simp
  moreover have "mset (map (\<lambda>p. output_text (prediction_output p)) (predictions (QueryOutput_init ?ps)))
                   = mset (map (\<lambda>p. output_text (prediction_output p)) ?ps)"
    using mset_QueryOutput_init [of ?ps] by (metis mset_map)
  ultimately show ?thesis
    using from_sequence_classification_valid [OF docs assms(2,3)]
    by (simp add: length_QueryOutput_init)
qed

theorem short_logits_row_drops_answers_witness:
  "logits_row
     (PyDict [(''model_outputs'', PyDict [(''logits'', PyList [PyList [PyFloat (Fin 0.1), PyFloat (Fin 0.9)]])])])
   = Inr (PyList [PyFloat (Fin 0.1), PyFloat (Fin 0.9)])
   \<and> mapE float_validator [PyFloat (Fin 0.1), PyFloat (Fin 0.9)] = Inr [Fin 0.1, Fin 0.9]
   \<and> length [PyFloat (Fin 0.1), PyFloat (Fin 0.9)] < length [''yes'', ''no'', ''maybe'']
   \<and> from_sequence_classification [''yes'', ''no'', ''maybe'']
     (PyDict [(''model_outputs'', PyDict [(''logits'', PyList [PyList [PyFloat (Fin 0.1), PyFloat (Fin 0.9)]])])])
     (PyStr ''doc'')
   = Inr \<lparr>predictions = [scored_prediction (Fin 0.9, ''no'', [plain_document ''doc'']),
                          scored_prediction (Fin 0.1, ''yes'', [plain_document ''doc''])]\<rparr>"
  using short_logits_row_drops_answers
    [of "PyStr ''doc''" "''doc''"
       "PyDict [(''model_outputs'', PyDict [(''logits'', PyList [PyList [PyFloat (Fin 0.1), PyFloat (Fin 0.9)]])])]"
       "[PyFloat (Fin 0.1), PyFloat (Fin 0.9)]" "[Fin 0.1, Fin 0.9]" "[''yes'', ''no'', ''maybe'']"]
  by (simp add: adapter_defs scored_prediction_def plain_document_def eval_nat_numeral)

subsection \<open>Failure aborts construction\<close>

lemma from_sequence_classification_record_fails:
  assumes "prediction_documents_iter_from_context (int (length answers)) c = Inr docs"
    and "logits_row m = Inr v" "py_iter v = Inr scores"
    and "i < length (zip scores (zip answers docs))"
    and "sequence_classification_prediction (zip scores (zip answers docs) ! i) = Inl e"
  shows "\<exists>e'. from_sequence_classification answers m c = Inl e'"
proof -
  from mapE_fails [of i "zip scores (zip answers docs)" sequence_classification_prediction e]
    assms(4,5) obtain e'
    where "mapE sequence_classification_prediction (zip scores (zip answers docs)) = Inl e'"
    by blast
  with assms(1-3) show ?thesis
    by (simp add: from_sequence_classification_def)
qed

lemma sequence_classification_prediction_invalid:
  "float_validator v = Inl e \<Longrightarrow> sequence_classification_prediction (v, a, d) = Inl e"
  by (simp add: sequence_classification_prediction_def PredictionOutput_init_def field_def)

lemma from_question_answering_record_fails:
  assumes "py_getitem m ''answers'' = Inr a" "py_iter a = Inr passages" "k < length passages"
    and "resolve_context c cs k = Inr (dc, sc)" "py_iter (passages ! k) = Inr records"
    and "j < length records" "question_answering_prediction dc sc (records ! j) = Inl e"
  shows "\<exists>e'. from_question_answering m c cs = Inl e'"
proof -
  from mapE_fails [of j records "question_answering_prediction dc sc" e] assms(6,7)
  obtain e' where "mapE (question_answering_prediction dc sc) records = Inl e'"
    by blast
  with assms(4,5) have "question_answering_passage c cs (k, passages ! k) = Inl e'"
    by (simp add: question_answering_passage_def)
  from from_question_answering_passage_fails [OF assms(1-3) this] show ?thesis .
qed

lemma question_answering_prediction_span:
  assumes "question_answering_prediction dc sc r = Inr p" "py_truthy dc"
  shows "\<exists>s e d. py_getitem r ''start'' = Inr s \<and> py_getitem r ''end'' = Inr e
           \<and> PredictionDocument_init
                [(''document'', dc), (''span'', PyList [s, e]), (''score'', sc)] = Inr d"
  using assms by (auto simp: question_answering_prediction_def bindE_eq_Inr)

lemma question_answering_prediction_fails:
  assumes "py_getitem r ''answer'' = Inl e \<or> py_getitem r ''score'' = Inl e
     \<or> (\<exists>v. py_getitem r ''score'' = Inr v \<and> float_validator v = Inl e)
     \<or> (\<exists>v0. py_getitem r ''answer'' = Inr v0
           \<and> str_validator (if py_truthy v0 then v0 else PyStr ''No answer found.'') = Inl e)
     \<or> (py_truthy dc \<and> (py_getitem r ''start'' = Inl e \<or> py_getitem r ''end'' = Inl e))
     \<or> (py_truthy dc \<and> (\<exists>s0 e0. py_getitem r ''start'' = Inr s0 \<and> py_getitem r ''end'' = Inr e0
           \<and> PredictionDocument_init
                [(''document'', dc), (''span'', PyList [s0, e0]), (''score'', sc)] = Inl e))"
  shows "\<exists>e'. question_answering_prediction dc sc r = Inl e'"
proof (cases "question_answering_prediction dc sc r")
  case (Inl e')
  then show ?thesis by blast
next
  case (Inr p)
  from question_answering_prediction_output [OF Inr] question_answering_prediction_span [OF Inr]
    assms
  show ?thesis by auto
qed

text \<open>
  C8. A payload without the \<^verbatim>\<open>model_outputs\<close>/\<^verbatim>\<open>logits\<close> path makes the
  sequence-classification adapter fail (with the helper's error if the context is
  rejected first, else with the lookup's error), and a payload without \<^verbatim>\<open>answers\<close> makes
  the question-answering adapter fail with the lookup's error. Every other error aborts
  the whole construction too: a score that does not validate fails its record, a record
  without \<^verbatim>\<open>answer\<close> or \<^verbatim>\<open>score\<close> (or, with a context, without \<^verbatim>\<open>start\<close> or \<^verbatim>\<open>end\<close>)
  fails, a context that does not resolve or a passage that cannot be iterated fails, and
  one failing record or passage makes the adapter return an error, which carries no
  \<open>QueryOutput\<close>.
\<close>

theorem missing_structure_raises:
  "(logits_row m = Inl e \<longrightarrow>
      from_sequence_classification answers m c
        = Inl (case prediction_documents_iter_from_context (int (length answers)) c of
                 Inl h \<Rightarrow> h | Inr _ \<Rightarrow> e))
   \<and> (prediction_documents_iter_from_context (int (length answers)) c = Inl e \<longrightarrow>
        from_sequence_classification answers m c = Inl e)
   \<and> (prediction_documents_iter_from_context (int (length answers)) c = Inr docs
        \<and> logits_row m = Inr v \<and> py_iter v = Inl e \<longrightarrow>
        from_sequence_classification answers m c = Inl e)
   \<and> (py_getitem m' ''answers'' = Inr a \<and> py_iter a = Inl e \<longrightarrow>
        from_question_answering m' c' cs' = Inl e)
   \<and> (py_getitem m ''model_outputs'' = Inl e \<longrightarrow> logits_row m = Inl e)
   \<and> (py_getitem m ''model_outputs'' = Inr mo \<and> py_getitem mo ''logits'' = Inl e \<longrightarrow>
        logits_row m = Inl e)
   \<and> (map_of d ''model_outputs'' = None \<longrightarrow>
        py_getitem (PyDict d) ''model_outputs'' = Inl KeyError)
   \<and> (map_of d ''logits'' = None \<longrightarrow> py_getitem (PyDict d) ''logits'' = Inl KeyError)
   \<and> (py_getitem m' ''answers'' = Inl e \<longrightarrow> from_question_answering m' c' cs' = Inl e)
   \<and> (map_of d ''answers'' = None \<longrightarrow> from_question_answering (PyDict d) c' cs' = Inl KeyError)
   \<and> (prediction_documents_iter_from_context (int (length answers)) c = Inr docs
        \<and> logits_row m = Inr v \<and> py_iter v = Inr scores
        \<and> i < length (zip scores (zip answers docs))
        \<and> sequence_classification_prediction (zip scores (zip answers docs) ! i) = Inl e \<longrightarrow>
        (\<exists>e'. from_sequence_classification answers m c = Inl e'))
   \<and> (float_validator sv = Inl e \<longrightarrow> sequence_classification_prediction (sv, sa, sd) = Inl e)
   \<and> (py_getitem m' ''answers'' = Inr a \<and> py_iter a = Inr passages \<and> k < length passages
        \<and> question_answering_passage c' cs' (k, passages ! k) = Inl e \<longrightarrow>
        (\<exists>e'. from_question_answering m' c' cs' = Inl e'))
   \<and> (py_getitem m' ''answers'' = Inr a \<and> py_iter a = Inr passages \<and> k < length passages
        \<and> (resolve_context c' cs' k = Inl e \<or> py_iter (passages ! k) = Inl e) \<longrightarrow>
        (\<exists>e'. from_question_answering m' c' cs' = Inl e'))
   \<and> (py_getitem m' ''answers'' = Inr a \<and> py_iter a = Inr passages \<and> k < length passages
        \<and> resolve_context c' cs' k = Inr (dc, sc) \<and> py_iter (passages ! k) = Inr records
        \<and> j < length records
        \<and> question_answering_prediction dc sc (records ! j) = Inl e \<longrightarrow>
        (\<exists>e'. from_question_answering m' c' cs' = Inl e'))
   \<and> (py_getitem r ''answer'' = Inl e \<or> py_getitem r ''score'' = Inl e
        \<or> (\<exists>v. py_getitem r ''score'' = Inr v \<and> float_validator v = Inl e)
        \<or> (\<exists>v0. py_getitem r ''answer'' = Inr v0
              \<and> str_validator (if py_truthy v0 then v0 else PyStr ''No answer found.'') = Inl e)
        \<or> (py_truthy dc \<and> (py_getitem r ''start'' = Inl e \<or> py_getitem r ''end'' = Inl e))
        \<or> (py_truthy dc \<and> (\<exists>s0 e0. py_getitem r ''start'' = Inr s0 \<and> py_getitem r ''end'' = Inr e0
              \<and> PredictionDocument_init
                   [(''document'', dc), (''span'', PyList [s0, e0]), (''score'', sc)] = Inl e)) \<longrightarrow>
        (\<exists>e'. question_answering_prediction dc sc r = Inl e'))"
proof (intro conjI impI)
  show "from_sequence_classification answers m c = Inl e"
    if "prediction_documents_iter_from_context (int (length answers)) c = Inl e"
    using that by (simp add: from_sequence_classification_def)
  show "from_sequence_classification answers m c = Inl e"
    if "prediction_documents_iter_from_context (int (length answers)) c = Inr docs
        \<and> logits_row m = Inr v \<and> py_iter v = Inl e"
    using that by (simp add: from_sequence_classification_def)
  show "from_question_answering m' c' cs' = Inl e"
    if "py_getitem m' ''answers'' = Inr a \<and> py_iter a = Inl e"
    using that by (simp add: from_question_answering_def)
  show "from_sequence_classification answers m c
        = Inl (case prediction_documents_iter_from_context (int (length answers)) c of
                 Inl h \<Rightarrow> h | Inr _ \<Rightarrow> e)" if "logits_row m = Inl e"
    using that by (simp add: from_sequence_classification_def split: sum.splits)
  show "logits_row m = Inl e" if "py_getitem m ''model_outputs'' = Inl e"
    using that by (simp add: logits_row_def)
  show "logits_row m = Inl e"
    if "py_getitem m ''model_outputs'' = Inr mo \<and> py_getitem mo ''logits'' = Inl e"
    using that by (simp add: logits_row_def)
  show "py_getitem (PyDict d) ''model_outputs'' = Inl KeyError"
    if "map_of d ''model_outputs'' = None"
    using that by simp
  show "py_getitem (PyDict d) ''logits'' = Inl KeyError" if "map_of d ''logits'' = None"
    using that by simp
  show "from_question_answering m' c' cs' = Inl e" if "py_getitem m' ''answers'' = Inl e"
    using that by (simp add: from_question_answering_def)
  show "from_question_answering (PyDict d) c' cs' = Inl KeyError"
    if "map_of d ''answers'' = None"
    using that by (simp add: from_question_answering_def)
  show "\<exists>e'. from_sequence_classification answers m c = Inl e'"
    if "prediction_documents_iter_from_context (int (length answers)) c = Inr docs
        \<and> logits_row m = Inr v \<and> py_iter v = Inr scores
        \<and> i < length (zip scores (zip answers docs))
        \<and> sequence_classification_prediction (zip scores (zip answers docs) ! i) = Inl e"
    using that from_sequence_classification_record_fails by blast
  show "sequence_classification_prediction (sv, sa, sd) = Inl e" if "float_validator sv = Inl e"
    using that by (rule sequence_classification_prediction_invalid)
  show "\<exists>e'. from_question_answering m' c' cs' = Inl e'"
    if "py_getitem m' ''answers'' = Inr a \<and> py_iter a = Inr passages \<and> k < length passages
        \<and> question_answering_passage c' cs' (k, passages ! k) = Inl e"
    using that from_question_answering_passage_fails by blast
  show "\<exists>e'. from_question_answering m' c' cs' = Inl e'"
    if "py_getitem m' ''answers'' = Inr a \<and> py_iter a = Inr passages \<and> k < length passages
        \<and> (resolve_context c' cs' k = Inl e \<or> py_iter (passages ! k) = Inl e)"
  proof -
    from that have "\<exists>e'. question_answering_passage c' cs' (k, passages ! k) = Inl e'"
      by (cases "resolve_context c' cs' k")
        (auto simp: question_answering_passage_def split: prod.splits)
    with that from_question_answering_passage_fails show ?thesis
      by blast
  qed
  show "\<exists>e'. from_question_answering m' c' cs' = Inl e'"
    if "py_getitem m' ''answers'' = Inr a \<and> py_iter a = Inr passages \<and> k < length passages
        \<and> resolve_context c' cs' k = Inr (dc, sc) \<and> py_iter (passages ! k) = Inr records
        \<and> j < length records
        \<and> question_answering_prediction dc sc (records ! j) = Inl e"
    using that from_question_answering_record_fails by blast
  show "\<exists>e'. question_answering_prediction dc sc r = Inl e'"
    if "py_getitem r ''answer'' = Inl e \<or> py_getitem r ''score'' = Inl e
        \<or> (\<exists>v. py_getitem r ''score'' = Inr v \<and> float_validator v = Inl e)
        \<or> (\<exists>v0. py_getitem r ''answer'' = Inr v0
              \<and> str_validator (if py_truthy v0 then v0 else PyStr ''No answer found.'') = Inl e)
        \<or> (py_truthy dc \<and> (py_getitem r ''start'' = Inl e \<or> py_getitem r ''end'' = Inl e))
        \<or> (py_truthy dc \<and> (\<exists>s0 e0. py_getitem r ''start'' = Inr s0 \<and> py_getitem r ''end'' = Inr e0
              \<and> PredictionDocument_init
                   [(''document'', dc), (''span'', PyList [s0, e0]), (''score'', sc)] = Inl e))"
    using that by (rule question_answering_prediction_fails)
qed

theorem missing_structure_raises_witness:
  "logits_row (PyDict [(''model_outputs'', PyDict [])]) = Inl KeyError
   \<and> from_sequence_classification [''yes'', ''no''] (PyDict [(''model_outputs'', PyDict [])]) PyNone
     = Inl KeyError
   \<and> py_getitem (PyDict []) ''model_outputs'' = Inl KeyError
   \<and> logits_row (PyDict []) = Inl KeyError
   \<and> from_sequence_classification [''yes'', ''no''] (PyDict []) (PyList []) = Inl ValueError
   \<and> py_getitem (PyDict []) ''answers'' = Inl KeyError
   \<and> from_question_answering (PyDict []) (PyStr ''ctx'') (PyInt 1) = Inl KeyError
   \<and> py_getitem (PyDict [(''answer'', PyStr ''b'')]) ''score'' = Inl KeyError
   \<and> question_answering_prediction (PyStr []) (PyInt 1) (PyDict [(''answer'', PyStr ''b'')]) = Inl KeyError
   \<and> from_question_answering
       (PyDict [(''answers'', PyList [PyList [PyDict [(''answer'', PyStr ''a''), (''score'', PyFloat (Fin 0.5)), (''start'', PyInt 0), (''end'', PyInt 1)],
        PyDict [(''answer'', PyStr ''b'')]]])]) PyNone PyNone = Inl KeyError
   \<and> float_validator PyNone = Inl ValidationError
   \<and> sequence_classification_prediction (PyNone, ''b'', []) = Inl ValidationError
   \<and> from_sequence_classification [''a'', ''b'']
       (PyDict [(''model_outputs'', PyDict [(''logits'', PyList [PyList [PyFloat (Fin 0.5), PyNone]])])]) PyNone = Inl ValidationError"
  using missing_structure_raises
    [where m = "PyDict [(''model_outputs'', PyDict [])]" and e = KeyError
       and answers = "[''yes'', ''no'']" and c = PyNone and mo = "PyDict []" and d = "[]"
       and m' = "PyDict []" and c' = "PyStr ''ctx''" and cs' = "PyInt 1"]
    missing_structure_raises
    [where m = "PyDict []" and e = KeyError
       and answers = "[''yes'', ''no'']" and c = "PyList []" and d = "[]"]
    missing_structure_raises
    [where m' = "PyDict [(''answers'', PyList [PyList [PyDict [(''answer'', PyStr ''a''), (''score'', PyFloat (Fin 0.5)), (''start'', PyInt 0), (''end'', PyInt 1)],
        PyDict [(''answer'', PyStr ''b'')]]])]"
       and c' = PyNone and cs' = PyNone and e = KeyError
       and a = "PyList [PyList [PyDict [(''answer'', PyStr ''a''), (''score'', PyFloat (Fin 0.5)), (''start'', PyInt 0), (''end'', PyInt 1)],
        PyDict [(''answer'', PyStr ''b'')]]]"
       and passages = "[PyList [PyDict [(''answer'', PyStr ''a''), (''score'', PyFloat (Fin 0.5)), (''start'', PyInt 0), (''end'', PyInt 1)],
        PyDict [(''answer'', PyStr ''b'')]]]"
       and k = 0 and dc = "PyStr []" and sc = "PyInt 1"
       and records = "[PyDict [(''answer'', PyStr ''a''), (''score'', PyFloat (Fin 0.5)), (''start'', PyInt 0), (''end'', PyInt 1)],
        PyDict [(''answer'', PyStr ''b'')]]"
       and j = 1 and r = "PyDict [(''answer'', PyStr ''b'')]"]
    missing_structure_raises
    [where m = "PyDict [(''model_outputs'', PyDict [(''logits'', PyList [PyList [PyFloat (Fin 0.5), PyNone]])])]"
       and answers = "[''a'', ''b'']" and c = PyNone and e = ValidationError
       and docs = "[[], []]" and v = "PyList [PyFloat (Fin 0.5), PyNone]"
       and scores = "[PyFloat (Fin 0.5), PyNone]" and i = 1
       and sv = PyNone and sa = "''b''" and sd = "[]"]
  by (simp add: adapter_defs eval_nat_numeral)

end
